theory Spec2Isabelle
  imports Main "HOL-Library.Multiset"
begin

section \<open>JavaScript values used by the services\<close>

text \<open>
  The project id reaches \<open>globalState\<close> from the route parameter \<open>:project\<close>, so it is a
  string; the field starts as \<open>null\<close>, and a missing parameter is \<open>undefined\<close>. The same
  three shapes are the timestamps handed to \<open>dtformat\<close>.
\<close>

datatype jsval = JNull | JUndefined | JStr string

text \<open>\<open>!v\<close> is true exactly for the falsy values: \<open>null\<close>, \<open>undefined\<close> and the empty string.\<close>

fun js_truthy :: "jsval \<Rightarrow> bool" where
  "js_truthy JNull = False"
| "js_truthy JUndefined = False"
| "js_truthy (JStr s) = (s \<noteq> [])"

text \<open>\<open>a != b\<close>: \<open>null\<close> and \<open>undefined\<close> are loosely equal to each other and to nothing
  else; two strings are compared by content.\<close>

fun js_neq :: "jsval \<Rightarrow> jsval \<Rightarrow> bool" where
  "js_neq (JStr a) (JStr b) = (a \<noteq> b)"
| "js_neq (JStr a) _ = True"
| "js_neq _ (JStr b) = True"
| "js_neq _ _ = False"

section \<open>Remote resources, the heap and the global state\<close>

text \<open>A resource as the server returns it: its \<open>id\<close> and its other attributes.\<close>

record resource =
  rid :: nat
  attrs :: "(string \<times> string) list"

text \<open>The objects the resource services hand out: arrays that are filled when the answer
  arrives, and the single object of \<open>Project.get\<close>.\<close>

datatype obj = Array "resource list" | Object "resource option"

type_synonym ref = nat

text \<open>The remote calls of the source, with the parameters they are given.\<close>

datatype query =
    Project_get jsval
  | Job_all jsval
  | JobTemplate_all jsval
  | Worker_all jsval
  | Run_all string jsval
  | Run_query nat nat string

text \<open>A function supplied by the caller of \<open>globalState\<close> (a controller): the model records
  that it was invoked and the cache it finds when it is, not what it does.\<close>

type_synonym callback = nat

text \<open>The success callbacks the source registers, one constructor per closure:
  \<^item> \<open>InitJobs cb\<close>, \<open>InitJobTemplates cb\<close>, \<open>InitWorkers cb\<close>: the three nested closures of
    \<open>initialize\<close>;
  \<^item> \<open>Success cb\<close>: the caller's own \<open>success\<close> passed on by \<open>getAllJobs\<close>, or none;
  \<^item> \<open>PushRuns\<close>: the closures of the three \<open>Run.all\<close> calls of \<open>getRuns\<close>;
  \<^item> \<open>RunsJobs\<close>: the closure of the \<open>Job.all\<close> call of \<open>getRuns\<close>;
  \<^item> \<open>PushCompleted\<close>: the closure of each \<open>Run.query\<close> call of \<open>getRuns\<close>.\<close>

datatype closure =
    InitJobs callback
  | InitJobTemplates callback
  | InitWorkers callback
  | Success "callback option"
  | PushRuns
  | RunsJobs
  | PushCompleted

record request =
  query_of :: query
  target :: ref
  on_success :: closure
  on_error :: "closure option"

datatype cacheval = CList "resource list" | CItem resource

record data =
  project :: "ref option"
  projectId :: jsval
  page :: jsval
  jobs :: "ref option"
  jobTab :: string
  jobTemplates :: "ref option"
  jobFilter :: "(string \<times> string) list"
  runs :: "ref option"
  wsConnected :: bool

record gstate =
  data :: data
  globalCache :: "string \<rightharpoonup> cacheval"
  heap :: "obj list"
  pending :: "request list"
  called :: "(callback \<times> (string \<rightharpoonup> cacheval)) list"

text \<open>The service as the factory returns it, with an empty cache and nothing in flight.\<close>

definition initial_data :: data where
  "initial_data =
     \<lparr>project = None, projectId = JNull, page = JNull, jobs = None, jobTab = ''details'',
      jobTemplates = None, jobFilter = [], runs = None, wsConnected = False\<rparr>"

definition initial_state :: gstate where
  "initial_state =
     \<lparr>data = initial_data, globalCache = Map.empty, heap = [], pending = [], called = []\<rparr>"

text \<open>Modelled from the spec: the resource services (\<open>Project\<close>, \<open>Job\<close>, \<open>JobTemplate\<close>,
  \<open>Worker\<close>, \<open>Run\<close>) are not among the sources. ``Network calls are asynchronous and
  non-blocking'': a call returns a new, still empty object at once and leaves the request
  in flight; the success callback runs later, when the answer is delivered. A call takes
  the parameters, the success callback and the error callback; every call of the source
  passes the first two only.\<close>

fun placeholder :: "query \<Rightarrow> obj" where
  "placeholder (Project_get i) = Object None"
| "placeholder q = Array []"

definition remote ::
  "query \<Rightarrow> closure \<Rightarrow> closure option \<Rightarrow> gstate \<Rightarrow> ref \<times> gstate" where
  "remote q k e s =
     (let r = length (heap s)
      in (r, s\<lparr>heap := heap s @ [placeholder q],
               pending := pending s
                 @ [\<lparr>query_of = q, target = r, on_success = k, on_error = e\<rparr>]\<rparr>))"

section \<open>globalState: switching the project\<close>

text \<open>The reset both \<open>setProjectId\<close> and \<open>initialize\<close> perform in their first branch:
  the id is stored, \<open>globalCache.removeAll()\<close>, and the four data fields become \<open>null\<close>.\<close>

definition reset_all :: "jsval \<Rightarrow> gstate \<Rightarrow> gstate" where
  "reset_all p s =
     s\<lparr>data := (data s)\<lparr>projectId := p, project := None, jobs := None,
                          jobTemplates := None, runs := None\<rparr>,
       globalCache := Map.empty\<rparr>"

definition setProjectId :: "jsval \<Rightarrow> gstate \<Rightarrow> gstate" where
  "setProjectId p s =
     (if \<not> js_truthy (projectId (data s)) \<or> js_neq (projectId (data s)) p
      then reset_all p s
      else s)"

definition initialize :: "jsval \<Rightarrow> callback \<Rightarrow> gstate \<Rightarrow> gstate" where
  "initialize p cb s =
     (if \<not> js_truthy (projectId (data s)) \<or> js_neq (projectId (data s)) p
      then (let s1 = reset_all p s
            in snd (remote (Job_all (projectId (data s1))) (InitJobs cb) None s1))
      else s\<lparr>called := called s @ [(cb, globalCache s)]\<rparr>)"

section \<open>Angular's cache and \<open>forEach\<close>\<close>

text \<open>JavaScript's conversion of a number to a string, for the non-negative integer ids:
  \<open>'job.' + job.id\<close>.\<close>

fun string_of_nat :: "nat \<Rightarrow> string" where
  "string_of_nat n =
     (if n < 10 then [char_of (48 + n)]
      else string_of_nat (n div 10) @ [char_of (48 + n mod 10)])"

declare string_of_nat.simps [simp del]

text \<open>\<open>angular.forEach(items, function(x) { globalCache.put(prefix + x.id, x); })\<close>\<close>

definition cache_each ::
  "string \<Rightarrow> resource list \<Rightarrow> (string \<rightharpoonup> cacheval) \<Rightarrow> (string \<rightharpoonup> cacheval)" where
  "cache_each prefix items c = fold (\<lambda>x m. m(prefix @ string_of_nat (rid x) \<mapsto> CItem x)) items c"

section \<open>globalState: the callbacks\<close>

datatype js_error = TypeError

text \<open>\<open>self.data.runs.push(run)\<close>: reads the field when the callback runs. On \<open>null\<close> (the
  field was reset in between) the property access throws a TypeError; so does \<open>push\<close> on
  anything that is not an array.\<close>

definition push :: "resource \<Rightarrow> gstate \<Rightarrow> js_error + gstate" where
  "push x s =
     (case runs (data s) of
        None \<Rightarrow> Inl TypeError
      | Some a \<Rightarrow>
          (if a < length (heap s)
           then (case heap s ! a of
                   Array xs \<Rightarrow> Inr (s\<lparr>heap := (heap s)[a := Array (xs @ [x])]\<rparr>)
                 | Object v \<Rightarrow> Inl TypeError)
           else Inl TypeError))"

text \<open>\<open>angular.forEach(items, function(run) { self.data.runs.push(run); })\<close>: an exception
  leaves the loop, with the pushes made so far in place.\<close>

fun push_each :: "resource list \<Rightarrow> gstate \<Rightarrow> js_error option \<times> gstate" where
  "push_each [] s = (None, s)"
| "push_each (x # xs) s =
     (case push x s of
        Inl e \<Rightarrow> (Some e, s)
      | Inr s' \<Rightarrow> push_each xs s')"

text \<open>The body of each success callback, run on the list the callback receives. The
  closures of \<open>initialize\<close> read \<open>self.data.projectId\<close> when they run.\<close>

fun run_callback :: "closure \<Rightarrow> resource list \<Rightarrow> gstate \<Rightarrow> js_error option \<times> gstate" where
  "run_callback (InitJobs cb) js s =
     (let s1 = s\<lparr>globalCache :=
                   cache_each ''job.'' js ((globalCache s)(''job.all'' \<mapsto> CList js))\<rparr>
      in (None, snd (remote (JobTemplate_all (projectId (data s1))) (InitJobTemplates cb) None s1)))"
| "run_callback (InitJobTemplates cb) ts s =
     (let s1 = s\<lparr>globalCache :=
                   cache_each ''jobTemplate.'' ts
                     ((globalCache s)(''jobTemplate.all'' \<mapsto> CList ts))\<rparr>
      in (None, snd (remote (Worker_all (projectId (data s1))) (InitWorkers cb) None s1)))"
| "run_callback (InitWorkers cb) ws s =
     (let s1 = s\<lparr>globalCache :=
                   cache_each ''worker.'' ws ((globalCache s)(''worker.all'' \<mapsto> CList ws))\<rparr>
      in (None, s1\<lparr>called := called s1 @ [(cb, globalCache s1)]\<rparr>))"
| "run_callback (Success None) xs s = (None, s)"
| "run_callback (Success (Some cb)) xs s =
     (None, s\<lparr>called := called s @ [(cb, globalCache s)]\<rparr>)"
| "run_callback PushRuns rs s = push_each rs s"
| "run_callback RunsJobs js s =
     (None, fold (\<lambda>job t. snd (remote (Run_query (rid job) 1 ''completed'') PushCompleted None t)) js s)"
| "run_callback PushCompleted rs s = push_each rs s"

section \<open>The event loop\<close>

text \<open>The server answers a query with a list of resources (one resource for \<open>Project.get\<close>).\<close>

type_synonym server = "query \<Rightarrow> resource list"

fun fill :: "query \<Rightarrow> resource list \<Rightarrow> obj" where
  "fill (Project_get i) xs = Object (case xs of [] \<Rightarrow> None | x # ys \<Rightarrow> Some x)"
| "fill q xs = Array xs"

text \<open>Modelled from the spec: the resource services are not among the sources. The answer
  to the \<open>i\<close>-th request in flight arrives: the request is no longer in flight, the object
  the call returned is filled, and the success callback runs on the answer. Requests can
  be answered in any order.\<close>

definition deliver :: "server \<Rightarrow> nat \<Rightarrow> gstate \<Rightarrow> js_error option \<times> gstate" where
  "deliver srv i s =
     (if i < length (pending s)
      then (let req = pending s ! i;
                answer = srv (query_of req);
                s1 = s\<lparr>pending := take i (pending s) @ drop (Suc i) (pending s),
                       heap := (heap s)[target req := fill (query_of req) answer]\<rparr>
            in run_callback (on_success req) answer s1)
      else (None, s))"

text \<open>A schedule is the order in which answers arrive: at each step the position, among
  the requests then in flight, of the one answered.\<close>

fun deliveries :: "server \<Rightarrow> nat list \<Rightarrow> gstate \<Rightarrow> gstate" where
  "deliveries srv [] s = s"
| "deliveries srv (i # sched) s = deliveries srv sched (snd (deliver srv i s))"

text \<open>Modelled from the spec: the resource services are not among the sources. A request
  that fails is no longer in flight; the error callback runs if the call registered one,
  and there is ``no retry''.\<close>

definition fail_request :: "nat \<Rightarrow> gstate \<Rightarrow> js_error option \<times> gstate" where
  "fail_request i s =
     (if i < length (pending s)
      then (let req = pending s ! i;
                s1 = s\<lparr>pending := take i (pending s) @ drop (Suc i) (pending s)\<rparr>
            in (case on_error req of
                  None \<Rightarrow> (None, s1)
                | Some k \<Rightarrow> run_callback k [] s1))
      else (None, s))"

section \<open>globalState: the memoizing getters\<close>

text \<open>Each field holds \<open>null\<close> or an object, so the test \<open>if (this.data.f)\<close> is the test for
  a stored reference.\<close>

definition getProject :: "gstate \<Rightarrow> ref \<times> gstate" where
  "getProject s =
     (case project (data s) of
        Some r \<Rightarrow> (r, s)
      | None \<Rightarrow>
          (let (r, s1) = remote (Project_get (projectId (data s))) (Success None) None s
           in (r, s1\<lparr>data := (data s1)\<lparr>project := Some r\<rparr>\<rparr>)))"

definition getAllJobs :: "callback option \<Rightarrow> gstate \<Rightarrow> ref \<times> gstate" where
  "getAllJobs success s =
     (case jobs (data s) of
        Some r \<Rightarrow> (r, s)
      | None \<Rightarrow>
          (let (r, s1) = remote (Job_all (projectId (data s))) (Success success) None s
           in (r, s1\<lparr>data := (data s1)\<lparr>jobs := Some r\<rparr>\<rparr>)))"

definition getAllJobTemplates :: "gstate \<Rightarrow> ref \<times> gstate" where
  "getAllJobTemplates s =
     (case jobTemplates (data s) of
        Some r \<Rightarrow> (r, s)
      | None \<Rightarrow>
          (let (r, s1) = remote (JobTemplate_all (projectId (data s))) (Success None) None s
           in (r, s1\<lparr>data := (data s1)\<lparr>jobTemplates := Some r\<rparr>\<rparr>)))"

definition getRuns :: "gstate \<Rightarrow> ref \<times> gstate" where
  "getRuns s =
     (case runs (data s) of
        Some r \<Rightarrow> (r, s)
      | None \<Rightarrow>
          (let r = length (heap s);
               s0 = s\<lparr>heap := heap s @ [Array []], data := (data s)\<lparr>runs := Some r\<rparr>\<rparr>;
               s1 = snd (remote (Run_all ''scheduled'' (projectId (data s0))) PushRuns None s0);
               s2 = snd (remote (Run_all ''in_queue'' (projectId (data s1))) PushRuns None s1);
               s3 = snd (remote (Run_all ''started'' (projectId (data s2))) PushRuns None s2);
               s4 = snd (remote (Job_all (projectId (data s3))) RunsJobs None s3)
           in (r, s4)))"

text \<open>What an object holds, as a caller that keeps the reference sees it.\<close>

definition contents :: "gstate \<Rightarrow> ref \<Rightarrow> obj option" where
  "contents s r = (if r < length (heap s) then Some (heap s ! r) else None)"

section \<open>dtformat\<close>

text \<open>The components of a \<open>moment.duration\<close>, as its getters return them.\<close>

record duration =
  milliseconds :: int
  seconds :: int
  minutes :: int
  hours :: int
  days :: int
  months :: int
  years :: int

text \<open>The date library is not part of the repository; the three entry points the source
  uses are parameters: \<open>moment(x)\<close> as the instant it denotes (milliseconds since the
  epoch), \<open>moment.duration(ms)\<close>, and \<open>moment(x).format(pattern)\<close>.\<close>

record momentjs =
  moment :: "jsval \<Rightarrow> int"
  moment_duration :: "int \<Rightarrow> duration"
  format :: "int \<Rightarrow> string \<Rightarrow> string"

text \<open>A number shown by string concatenation.\<close>

definition js_string_of_int :: "int \<Rightarrow> string" where
  "js_string_of_int i =
     (if i < 0 then CHR ''-'' # string_of_nat (nat (- i)) else string_of_nat (nat i))"

text \<open>A function that falls off its end returns \<open>undefined\<close>: the result \<open>None\<close>.
  \<open>end.diff(start)\<close> is the difference of the two instants in milliseconds.\<close>

definition formatDuration :: "momentjs \<Rightarrow> jsval \<Rightarrow> jsval \<Rightarrow> string option" where
  "formatDuration lib startDts endDts =
     (if startDts \<noteq> JNull \<and> endDts \<noteq> JNull
      then (let start = moment lib startDts;
                finish = moment lib endDts;
                d = moment_duration lib (finish - start)
            in Some (js_string_of_int (days d) @ ''d, '' @ js_string_of_int (hours d) @ ''h, ''
                     @ js_string_of_int (minutes d) @ ''min, ''
                     @ js_string_of_int (seconds d) @ ''sec ''))
      else None)"

definition getDurationInSec :: "momentjs \<Rightarrow> jsval \<Rightarrow> jsval \<Rightarrow> int option" where
  "getDurationInSec lib startDts endDts =
     (if startDts \<noteq> JNull \<and> endDts \<noteq> JNull
      then (let start = moment lib startDts;
                finish = moment lib endDts;
                d = moment_duration lib (finish - start);
                output = seconds d;
                output = output + days d * 24 * 60 * 60;
                output = output + hours d * 60 * 60;
                output = output + minutes d * 60
            in Some output)
      else None)"

definition formatDateTime :: "momentjs \<Rightarrow> jsval \<Rightarrow> string option" where
  "formatDateTime lib dateTimeString =
     (if dateTimeString \<noteq> JNull
      then Some (format lib (moment lib dateTimeString) ''YYYY-MM-DD HH:mm:ss'')
      else None)"

subsection \<open>How the date library splits a duration\<close>

text \<open>The library's constructor of a duration from milliseconds carries each unit into
  the next: it rounds quotients towards zero (\<open>absRound\<close>) and keeps remainders with
  JavaScript's \<open>%\<close>, whose sign is the dividend's; a month is 30 days and a year 12
  months.\<close>

definition absRound_div :: "int \<Rightarrow> int \<Rightarrow> int" where
  "absRound_div a b = (if a < 0 then - ((- a) div b) else a div b)"

definition js_rem :: "int \<Rightarrow> int \<Rightarrow> int" where
  "js_rem a b = a - b * absRound_div a b"

definition bubble :: "int \<Rightarrow> duration" where
  "bubble ms =
     (let secs = absRound_div ms 1000;
          mins = absRound_div secs 60;
          hrs = absRound_div mins 60;
          ds = absRound_div hrs 24;
          mos = absRound_div ds 30;
          yrs = absRound_div mos 12
      in \<lparr>milliseconds = js_rem ms 1000, seconds = js_rem secs 60, minutes = js_rem mins 60,
          hours = js_rem hrs 24, days = js_rem ds 30, months = js_rem mos 12, years = yrs\<rparr>)"

section \<open>The route table\<close>

datatype controller = RunsCtrl | JobListCtrl

record route =
  controller :: controller
  templateUrl :: string

text \<open>\<open>$routeProvider.when(path, route)\<close> registers the route under its path and returns the
  provider, so that the calls chain.\<close>

definition when_path :: "string \<Rightarrow> route \<Rightarrow> (string \<times> route) list \<Rightarrow> (string \<times> route) list" where
  "when_path path r provider = provider @ [(path, r)]"

definition config :: "(string \<times> route) list" where
  "config =
     when_path ''/project/:project/jobs/:job/''
       \<lparr>controller = JobListCtrl, templateUrl = ''/static/job_runner/templates/job_list.html''\<rparr>
       (when_path ''/project/:project/jobs/''
          \<lparr>controller = JobListCtrl,
            templateUrl = ''/static/job_runner/templates/job_list.html''\<rparr>
          (when_path ''/project/:project/runs/''
             \<lparr>controller = RunsCtrl, templateUrl = ''/static/job_runner/templates/runs.html''\<rparr>
             []))"

section \<open>What the cache holds after a list was stored\<close>


text \<open>The item of a list that \<open>forEach\<close> stores last under the id \<open>i\<close>: the item itself when
  the ids of the list are distinct.\<close>

definition latest :: "resource list \<Rightarrow> nat \<Rightarrow> resource" where
  "latest items i = last (filter (\<lambda>y. rid y = i) items)"

text \<open>A cache holds a list: the list is under \<open>prefix + 'all'\<close> and every item of it under
  \<open>prefix + id\<close>.\<close>

definition cache_holds :: "string \<Rightarrow> resource list \<Rightarrow> (string \<rightharpoonup> cacheval) \<Rightarrow> bool" where
  "cache_holds prefix items c \<longleftrightarrow>
     c (prefix @ ''all'') = Some (CList items)
     \<and> (\<forall>x \<in> set items.
          c (prefix @ string_of_nat (rid x)) = Some (CItem (latest items (rid x))))"

definition cached_list :: "string \<Rightarrow> resource list \<Rightarrow> gstate \<Rightarrow> bool" where
  "cached_list prefix items s \<longleftrightarrow> cache_holds prefix items (globalCache s)"

section \<open>Example states\<close>

text \<open>A state with a project selected, its project object requested and one cache entry.\<close>

definition example_state :: gstate where
  "example_state =
     \<lparr>data = initial_data\<lparr>projectId := JStr ''1'', project := Some 0\<rparr>,
      globalCache = [''job.all'' \<mapsto> CList []], heap = [Object None], pending = [],
      called = []\<rparr>"

text \<open>The state after \<open>setProjectId('')\<close> and \<open>getProject()\<close> on the fresh service.\<close>

definition empty_id_state :: gstate where
  "empty_id_state = snd (getProject (setProjectId (JStr []) initial_state))"

text \<open>The four requests \<open>getRuns\<close> leaves in flight for project \<open>p\<close>, when the list it
  created is object \<open>r\<close>: the objects the four calls return are the next four.\<close>

definition runs_requests :: "jsval \<Rightarrow> ref \<Rightarrow> request list" where
  "runs_requests p r =
     [\<lparr>query_of = Run_all ''scheduled'' p, target = Suc r, on_success = PushRuns, on_error = None\<rparr>,
      \<lparr>query_of = Run_all ''in_queue'' p, target = Suc (Suc r), on_success = PushRuns, on_error = None\<rparr>,
      \<lparr>query_of = Run_all ''started'' p, target = Suc (Suc (Suc r)), on_success = PushRuns, on_error = None\<rparr>,
      \<lparr>query_of = Job_all p, target = Suc (Suc (Suc (Suc r))), on_success = RunsJobs, on_error = None\<rparr>]"

text \<open>A server with one scheduled run, one job and one completed run of that job.\<close>

definition example_run :: resource where
  "example_run = \<lparr>rid = 7, attrs = [(''state'', ''scheduled'')]\<rparr>"

definition example_job :: resource where
  "example_job = \<lparr>rid = 3, attrs = [(''title'', ''backup'')]\<rparr>"

definition example_completed :: resource where
  "example_completed = \<lparr>rid = 9, attrs = [(''state'', ''completed'')]\<rparr>"

definition example_template :: resource where
  "example_template = \<lparr>rid = 5, attrs = [(''title'', ''nightly'')]\<rparr>"

definition example_worker :: resource where
  "example_worker = \<lparr>rid = 12, attrs = [(''title'', ''worker-a'')]\<rparr>"

fun example_server :: server where
  "example_server (Run_all st p) = (if st = ''scheduled'' then [example_run] else [])"
| "example_server (Job_all p) = [example_job]"
| "example_server (JobTemplate_all p) = [example_template]"
| "example_server (Worker_all p) = [example_worker]"
| "example_server (Run_query j l st) = (if j = 3 then [example_completed] else [])"
| "example_server (Project_get i) = []"





text \<open>What \<open>getDurationInSec\<close> adds up: the seconds, minutes, hours and days of a duration.\<close>

definition in_sec :: "duration \<Rightarrow> int" where
  "in_sec d = seconds d + 60 * minutes d + 3600 * hours d + 86400 * days d"

text \<open>A date library that knows two instants, forty days and a second apart.\<close>

fun example_moment :: "jsval \<Rightarrow> int" where
  "example_moment (JStr s) =
     (if s = ''2013-01-01T00:00:00'' then 1356998400000
      else if s = ''2013-02-10T00:00:01'' then 1360454401000
      else 0)"
| "example_moment v = 0"

definition example_lib :: momentjs where
  "example_lib = \<lparr>moment = example_moment, moment_duration = bubble, format = (\<lambda>t p. p)\<rparr>"

section \<open>What the run list is owed\<close>


text \<open>The answers a request in flight will still append to the run list, each answer as
  the server gives it: its own answer for a closure that pushes, and for the job query of
  \<open>getRuns\<close> the answers to the completed-run queries of its jobs.\<close>

fun owed :: "server \<Rightarrow> query \<Rightarrow> closure \<Rightarrow> resource list multiset" where
  "owed srv q PushRuns = {#srv q#}"
| "owed srv q PushCompleted = {#srv q#}"
| "owed srv q RunsJobs = mset (map (\<lambda>job. srv (Run_query (rid job) 1 ''completed'')) (srv q))"
| "owed srv q k = {#}"

definition owed_all :: "server \<Rightarrow> request list \<Rightarrow> resource list multiset" where
  "owed_all srv P = sum_list (map (\<lambda>req. owed srv (query_of req) (on_success req)) P)"




section \<open>How long the event loop runs\<close>



section \<open>The states the service can be in\<close>

text \<open>From the service as the factory returns it, callers call the six operations in any
  order, and the requests in flight are answered or fail in any order.\<close>

inductive reachable :: "server \<Rightarrow> gstate \<Rightarrow> bool" for srv :: server where
  start: "reachable srv initial_state"
| call_setProjectId: "reachable srv s \<Longrightarrow> reachable srv (setProjectId p s)"
| call_initialize: "reachable srv s \<Longrightarrow> reachable srv (initialize p cb s)"
| call_getProject: "reachable srv s \<Longrightarrow> reachable srv (snd (getProject s))"
| call_getAllJobs: "reachable srv s \<Longrightarrow> reachable srv (snd (getAllJobs success s))"
| call_getAllJobTemplates: "reachable srv s \<Longrightarrow> reachable srv (snd (getAllJobTemplates s))"
| call_getRuns: "reachable srv s \<Longrightarrow> reachable srv (snd (getRuns s))"
| answer: "reachable srv s \<Longrightarrow> reachable srv (snd (deliver srv i s))"
| failure: "reachable srv s \<Longrightarrow> reachable srv (snd (fail_request i s))"

text \<open>No request in flight has an error callback.\<close>

definition no_error_callbacks :: "gstate \<Rightarrow> bool" where
  "no_error_callbacks s \<longleftrightarrow> (\<forall>req \<in> set (pending s). on_error req = None)"


text \<open>The queries issued between a state and a later one.\<close>

definition issued :: "gstate \<Rightarrow> gstate \<Rightarrow> query list" where
  "issued s s' = map query_of (drop (length (pending s)) (pending s'))"

section \<open>The stages of initialize\<close>

text \<open>The closures of \<open>initialize\<close>, and the requests in flight that carry one.\<close>

fun is_init :: "closure \<Rightarrow> bool" where
  "is_init (InitJobs cb) = True"
| "is_init (InitJobTemplates cb) = True"
| "is_init (InitWorkers cb) = True"
| "is_init k = False"

definition init_reqs :: "request list \<Rightarrow> (query \<times> closure) multiset" where
  "init_reqs P =
     (\<Sum>req\<leftarrow>P. if is_init (on_success req) then {#(query_of req, on_success req)#} else {#})"



section \<open>Two projects\<close>







section \<open>Facts about the JavaScript comparisons\<close>

lemma js_neq_iff_truthy: "js_truthy a \<Longrightarrow> js_neq a b = (a \<noteq> b)"
  by (cases a; cases b) auto

lemma reset_condition:
  "a = JNull \<or> a \<noteq> p \<Longrightarrow> \<not> js_truthy a \<or> js_neq a p"
  by (cases a; cases p) auto

lemma keep_condition:
  "js_truthy a \<Longrightarrow> a = p \<Longrightarrow> \<not> (\<not> js_truthy a \<or> js_neq a p)"
  by (cases a) auto

section \<open>Claims about switching the project\<close>

text \<open>
  C1. Whenever the stored \<open>data.projectId\<close> is \<open>null\<close> or differs from \<open>p\<close>, both
  \<open>setProjectId(p)\<close> and \<open>initialize(p, cb)\<close> empty \<open>globalCache\<close>, set \<open>data.project\<close>,
  \<open>data.jobs\<close>, \<open>data.jobTemplates\<close> and \<open>data.runs\<close> to \<open>null\<close> and store \<open>p\<close> in
  \<open>data.projectId\<close>; the other fields of \<open>data\<close> keep their values.
\<close>

theorem project_change_resets:
  assumes "projectId (data s) = JNull \<or> projectId (data s) \<noteq> p"
  shows "globalCache (setProjectId p s) = Map.empty
       \<and> data (setProjectId p s) =
           (data s)\<lparr>projectId := p, project := None, jobs := None,
                    jobTemplates := None, runs := None\<rparr>
       \<and> globalCache (initialize p cb s) = Map.empty
       \<and> data (initialize p cb s) =
           (data s)\<lparr>projectId := p, project := None, jobs := None,
                    jobTemplates := None, runs := None\<rparr>"
proof -
  from assms have c: "\<not> js_truthy (projectId (data s)) \<or> js_neq (projectId (data s)) p"
    by (rule reset_condition)
  have "setProjectId p s = reset_all p s"
    using c by (simp add: setProjectId_def)
  moreover have "initialize p cb s
      = snd (remote (Job_all (projectId (data (reset_all p s)))) (InitJobs cb) None (reset_all p s))"
    using c by (simp add: initialize_def Let_def)
  ultimately show ?thesis
    by (simp add: reset_all_def remote_def Let_def)
qed

theorem project_change_resets_witness:
  "(projectId (data example_state) = JNull \<or> projectId (data example_state) \<noteq> JStr ''2'')
   \<and> globalCache (setProjectId (JStr ''2'') example_state) = Map.empty
   \<and> project (data (setProjectId (JStr ''2'') example_state)) = None
   \<and> projectId (data (initialize (JStr ''2'') 0 example_state)) = JStr ''2''"
  using project_change_resets [of example_state "JStr ''2''" 0]
  by (simp add: example_state_def initial_data_def)

text \<open>
  C6, as stated, fails: the guard of both operations is \<open>!this.data.projectId\<close>, which is
  also true for a stored id that is not \<open>null\<close> but falsy. With the empty string stored
  and passed again, \<open>setProjectId\<close> and \<open>initialize\<close> reset \<open>data.project\<close>, and
  \<open>initialize\<close> issues a fetch and does not invoke the callback.
\<close>

lemma empty_id_state_eq:
  "empty_id_state =
     \<lparr>data = initial_data\<lparr>projectId := JStr [], project := Some 0\<rparr>,
      globalCache = Map.empty, heap = [Object None],
      pending = [\<lparr>query_of = Project_get (JStr []), target = 0, on_success = Success None, on_error = None\<rparr>],
      called = []\<rparr>"
  by (simp add: empty_id_state_def getProject_def setProjectId_def initial_state_def
      initial_data_def reset_all_def remote_def Let_def)

theorem falsy_id_counterexample:
  "projectId (data empty_id_state) \<noteq> JNull
   \<and> projectId (data empty_id_state) = JStr []
   \<and> project (data empty_id_state) = Some 0
   \<and> project (data (setProjectId (JStr []) empty_id_state)) = None
   \<and> project (data (initialize (JStr []) 7 empty_id_state)) = None
   \<and> length (pending (initialize (JStr []) 7 empty_id_state))
       = Suc (length (pending empty_id_state))
   \<and> called (initialize (JStr []) 7 empty_id_state) = []"
  by (simp add: empty_id_state_eq setProjectId_def initialize_def reset_all_def remote_def
      Let_def initial_data_def)

text \<open>
  C6, amended. Whenever the stored \<open>data.projectId\<close> is truthy (not \<open>null\<close>, \<open>undefined\<close>
  or the empty string) and equal to \<open>p\<close>, \<open>setProjectId(p)\<close> changes nothing, and
  \<open>initialize(p, cb)\<close> changes nothing, issues no fetch and invokes \<open>cb\<close> at once.
\<close>

theorem same_project_is_noop:
  assumes "js_truthy (projectId (data s))" and "projectId (data s) = p"
  shows "setProjectId p s = s
       \<and> initialize p cb s = s\<lparr>called := called s @ [(cb, globalCache s)]\<rparr>"
  using assms keep_condition [of "projectId (data s)" p]
  by (simp add: setProjectId_def initialize_def)

theorem same_project_is_noop_witness:
  "js_truthy (projectId (data example_state)) \<and> projectId (data example_state) = JStr ''1''
   \<and> setProjectId (JStr ''1'') example_state = example_state
   \<and> called (initialize (JStr ''1'') 7 example_state) = [(7, globalCache example_state)]
   \<and> pending (initialize (JStr ''1'') 7 example_state) = []"
  using same_project_is_noop [of example_state "JStr ''1''" 7]
  by (simp add: example_state_def initial_data_def)

section \<open>The routes that are registered\<close>

text \<open>
  C7. The configuration registers exactly three URL patterns, for two controllers and two
  templates: the runs pattern for \<open>RunsCtrl\<close> with the runs template, and both job patterns
  for \<open>JobListCtrl\<close> with the job list template.
\<close>

theorem route_table:
  "config =
     [(''/project/:project/runs/'',
       \<lparr>controller = RunsCtrl, templateUrl = ''/static/job_runner/templates/runs.html''\<rparr>),
      (''/project/:project/jobs/'',
       \<lparr>controller = JobListCtrl,
         templateUrl = ''/static/job_runner/templates/job_list.html''\<rparr>),
      (''/project/:project/jobs/:job/'',
       \<lparr>controller = JobListCtrl,
         templateUrl = ''/static/job_runner/templates/job_list.html''\<rparr>)]
   \<and> length config = 3
   \<and> distinct (map fst config)
   \<and> card (set (map (controller \<circ> snd) config)) = 2
   \<and> card (set (map (templateUrl \<circ> snd) config)) = 2"
  by (simp add: config_def when_path_def)

section \<open>dtformat on null\<close>

text \<open>
  C9. Every function of \<open>dtformat\<close> returns \<open>undefined\<close> when an argument is \<open>null\<close>:
  \<open>formatDuration\<close> and \<open>getDurationInSec\<close> when the start or the end is \<open>null\<close>,
  \<open>formatDateTime\<close> when its string is \<open>null\<close>. The result is a value, not an exception.
\<close>

theorem dtformat_null_is_undefined:
  "formatDuration lib JNull endDts = None
   \<and> formatDuration lib startDts JNull = None
   \<and> getDurationInSec lib JNull endDts = None
   \<and> getDurationInSec lib startDts JNull = None
   \<and> formatDateTime lib JNull = None"
  by (simp add: formatDuration_def getDurationInSec_def formatDateTime_def)


section \<open>The memoizing getters, step by step\<close>




lemma getRuns_new:
  "runs (data s) = None \<Longrightarrow>
   getRuns s =
     (length (heap s),
      s\<lparr>heap := heap s @ [Array [], Array [], Array [], Array [], Array []],
        pending := pending s @ runs_requests (projectId (data s)) (length (heap s)),
        data := (data s)\<lparr>runs := Some (length (heap s))\<rparr>\<rparr>)"
  by (simp add: getRuns_def remote_def Let_def runs_requests_def)





section \<open>Durations\<close>

lemma js_rem_split: "a = b * absRound_div a b + js_rem a b"
  by (simp add: js_rem_def)

lemma absRound_div_sign:
  assumes "0 < b"
  shows "0 \<le> a \<Longrightarrow> 0 \<le> absRound_div a b" and "a \<le> 0 \<Longrightarrow> absRound_div a b \<le> 0"
  using assms by (simp_all add: absRound_div_def pos_imp_zdiv_nonneg_iff)

lemma js_rem_sign:
  assumes "0 < b"
  shows "0 \<le> a \<Longrightarrow> 0 \<le> js_rem a b" and "a \<le> 0 \<Longrightarrow> js_rem a b \<le> 0"
proof -
  assume "0 \<le> a"
  then have "js_rem a b = a mod b"
    by (simp add: js_rem_def absRound_div_def minus_mult_div_eq_mod)
  then show "0 \<le> js_rem a b" using assms by simp
next
  assume "a \<le> 0"
  then have "js_rem a b = - ((- a) mod b)"
    by (cases "a = 0") (simp_all add: js_rem_def absRound_div_def minus_mult_div_eq_mod [symmetric])
  then show "js_rem a b \<le> 0" using assms by simp
qed

lemma absRound_div_zero [simp]: "absRound_div 0 b = 0" and js_rem_zero [simp]: "js_rem 0 b = 0"
  by (simp_all add: absRound_div_def js_rem_def)

text \<open>The whole seconds of a duration against what the four smaller components add up to.\<close>

lemma bubble_total:
  fixes ms :: int
  defines "t \<equiv> absRound_div ms 1000"
  defines "mos \<equiv> 12 * years (bubble ms) + months (bubble ms)"
  shows "t = in_sec (bubble ms) + 2592000 * mos"
    and "(mos = 0) = (months (bubble ms) = 0 \<and> years (bubble ms) = 0)"
    and "0 \<le> t \<Longrightarrow> 0 \<le> in_sec (bubble ms) \<and> 0 \<le> mos"
    and "t \<le> 0 \<Longrightarrow> in_sec (bubble ms) \<le> 0 \<and> mos \<le> 0"
proof -
  define a where "a = absRound_div t 60"
  define b where "b = absRound_div a 60"
  define c where "c = absRound_div b 24"
  define e where "e = absRound_div c 30"
  define y where "y = absRound_div e 12"
  define t0 where "t0 = js_rem t 60"
  define a0 where "a0 = js_rem a 60"
  define b0 where "b0 = js_rem b 24"
  define c0 where "c0 = js_rem c 30"
  define e0 where "e0 = js_rem e 12"
  have comps: "seconds (bubble ms) = t0" "minutes (bubble ms) = a0" "hours (bubble ms) = b0"
    "days (bubble ms) = c0" "months (bubble ms) = e0" "years (bubble ms) = y"
    by (simp_all add: bubble_def Let_def t_def a_def b_def c_def e_def y_def
        t0_def a0_def b0_def c0_def e0_def)
  have 1: "t = 60 * a + t0" unfolding a_def t0_def by (rule js_rem_split)
  have 2: "a = 60 * b + a0" unfolding b_def a0_def by (rule js_rem_split)
  have 3: "b = 24 * c + b0" unfolding c_def b0_def by (rule js_rem_split)
  have 4: "c = 30 * e + c0" unfolding e_def c0_def by (rule js_rem_split)
  have 5: "e = 12 * y + e0" unfolding y_def e0_def by (rule js_rem_split)
  have mos: "mos = e" using 5 by (simp add: mos_def comps)
  have r: "in_sec (bubble ms) = t0 + 60 * a0 + 3600 * b0 + 86400 * c0"
    by (simp add: in_sec_def comps)
  show "t = in_sec (bubble ms) + 2592000 * mos"
    unfolding r mos using 1 2 3 4 by linarith
  show "(mos = 0) = (months (bubble ms) = 0 \<and> years (bubble ms) = 0)"
  proof
    assume "mos = 0"
    then have "e = 0" using mos by simp
    then show "months (bubble ms) = 0 \<and> years (bubble ms) = 0"
      by (simp add: comps e0_def y_def)
  next
    assume "months (bubble ms) = 0 \<and> years (bubble ms) = 0"
    then show "mos = 0" by (simp add: mos_def)
  qed
  show "0 \<le> in_sec (bubble ms) \<and> 0 \<le> mos" if "0 \<le> t"
  proof -
    have pa: "0 \<le> a" unfolding a_def using that by (rule absRound_div_sign(1) [rotated]) simp
    have pb: "0 \<le> b" unfolding b_def using pa by (rule absRound_div_sign(1) [rotated]) simp
    have pc: "0 \<le> c" unfolding c_def using pb by (rule absRound_div_sign(1) [rotated]) simp
    have pe: "0 \<le> e" unfolding e_def using pc by (rule absRound_div_sign(1) [rotated]) simp
    have p0: "0 \<le> t0" unfolding t0_def using that by (rule js_rem_sign(1) [rotated]) simp
    have p1: "0 \<le> a0" unfolding a0_def using pa by (rule js_rem_sign(1) [rotated]) simp
    have p2: "0 \<le> b0" unfolding b0_def using pb by (rule js_rem_sign(1) [rotated]) simp
    have p3: "0 \<le> c0" unfolding c0_def using pc by (rule js_rem_sign(1) [rotated]) simp
    show ?thesis unfolding r mos using pe p0 p1 p2 p3 by linarith
  qed
  show "in_sec (bubble ms) \<le> 0 \<and> mos \<le> 0" if "t \<le> 0"
  proof -
    have pa: "a \<le> 0" unfolding a_def using that by (rule absRound_div_sign(2) [rotated]) simp
    have pb: "b \<le> 0" unfolding b_def using pa by (rule absRound_div_sign(2) [rotated]) simp
    have pc: "c \<le> 0" unfolding c_def using pb by (rule absRound_div_sign(2) [rotated]) simp
    have pe: "e \<le> 0" unfolding e_def using pc by (rule absRound_div_sign(2) [rotated]) simp
    have p0: "t0 \<le> 0" unfolding t0_def using that by (rule js_rem_sign(2) [rotated]) simp
    have p1: "a0 \<le> 0" unfolding a0_def using pa by (rule js_rem_sign(2) [rotated]) simp
    have p2: "b0 \<le> 0" unfolding b0_def using pb by (rule js_rem_sign(2) [rotated]) simp
    have p3: "c0 \<le> 0" unfolding c0_def using pc by (rule js_rem_sign(2) [rotated]) simp
    show ?thesis unfolding r mos using pe p0 p1 p2 p3 by linarith
  qed
qed

lemma under_report:
  fixes r t m :: int
  assumes "t = r + 2592000 * m" and "m \<noteq> 0"
    and "0 \<le> t \<Longrightarrow> 0 \<le> r \<and> 0 \<le> m" and "t \<le> 0 \<Longrightarrow> r \<le> 0 \<and> m \<le> 0"
  shows "\<bar>r\<bar> < \<bar>t\<bar>"
proof (cases "0 \<le> t")
  case True
  with assms(3) have "0 \<le> r" "0 \<le> m" by simp_all
  with assms(1,2) True show ?thesis by simp
next
  case False
  with assms(4) have "r \<le> 0" "m \<le> 0" by simp_all
  with assms(1,2) False show ?thesis by simp
qed

lemma getDurationInSec_eq:
  "startDts \<noteq> JNull \<Longrightarrow> endDts \<noteq> JNull \<Longrightarrow>
   getDurationInSec lib startDts endDts
     = Some (in_sec (moment_duration lib (moment lib endDts - moment lib startDts)))"
  by (simp add: getDurationInSec_def Let_def in_sec_def)

text \<open>
  C10. For non-null timestamps \<open>getDurationInSec\<close> returns the seconds plus 60 times the
  minutes plus 3600 times the hours plus 86400 times the days of the duration between the
  two instants; the months and years of the duration are not added. With the library's
  split of a duration, the result is the elapsed whole seconds exactly when the months
  and the years of the duration are zero, and is smaller in magnitude otherwise.
\<close>

theorem getDurationInSec_drops_months_and_years:
  assumes "startDts \<noteq> JNull" and "endDts \<noteq> JNull"
  shows "(let d = moment_duration lib (moment lib endDts - moment lib startDts);
              total = absRound_div (moment lib endDts - moment lib startDts) 1000
          in getDurationInSec lib startDts endDts
               = Some (seconds d + 60 * minutes d + 3600 * hours d + 86400 * days d)
             \<and> (moment_duration lib = bubble \<longrightarrow>
                  ((getDurationInSec lib startDts endDts = Some total)
                     = (months d = 0 \<and> years d = 0))
                  \<and> (months d \<noteq> 0 \<or> years d \<noteq> 0 \<longrightarrow>
                       \<bar>seconds d + 60 * minutes d + 3600 * hours d + 86400 * days d\<bar>
                         < \<bar>total\<bar>)))"
proof -
  let ?ms = "moment lib endDts - moment lib startDts"
  let ?t = "absRound_div ?ms 1000"
  have r: "getDurationInSec lib startDts endDts = Some (in_sec (moment_duration lib ?ms))"
    using assms by (rule getDurationInSec_eq)
  have "(in_sec (bubble ?ms) = ?t) = (months (bubble ?ms) = 0 \<and> years (bubble ?ms) = 0)"
    using bubble_total(1) [of ?ms] bubble_total(2) [of ?ms] by auto
  moreover have "\<bar>in_sec (bubble ?ms)\<bar> < \<bar>?t\<bar>"
    if "months (bubble ?ms) \<noteq> 0 \<or> years (bubble ?ms) \<noteq> 0"
  proof -
    from that have nz: "12 * years (bubble ?ms) + months (bubble ?ms) \<noteq> 0"
      using bubble_total(2) [of ?ms] by blast
    show ?thesis
      by (rule under_report [OF bubble_total(1) [of ?ms] nz bubble_total(3) [of ?ms]
            bubble_total(4) [of ?ms]])
  qed
  ultimately show ?thesis
    using r by (auto simp add: Let_def in_sec_def)
qed

lemma example_components:
  "months (bubble 3456001000) = 1" "days (bubble 3456001000) = 10"
  "absRound_div 3456001000 1000 = 3456001"
  by (simp_all add: bubble_def Let_def absRound_div_def js_rem_def)

lemma example_instants:
  "moment example_lib (JStr ''2013-02-10T00:00:01'') - moment example_lib (JStr ''2013-01-01T00:00:00'')
   = 3456001000"
  "moment_duration example_lib = bubble"
  by (simp_all add: example_lib_def)

lemma example_duration:
  "getDurationInSec example_lib (JStr ''2013-01-01T00:00:00'') (JStr ''2013-02-10T00:00:01'')
       = Some 864001"
  by code_simp

theorem getDurationInSec_drops_months_and_years_witness:
  "JStr ''2013-01-01T00:00:00'' \<noteq> JNull \<and> JStr ''2013-02-10T00:00:01'' \<noteq> JNull
   \<and> moment_duration example_lib = bubble
   \<and> months (bubble 3456001000) = 1 \<and> days (bubble 3456001000) = 10
   \<and> getDurationInSec example_lib (JStr ''2013-01-01T00:00:00'') (JStr ''2013-02-10T00:00:01'')
       = Some 864001
   \<and> absRound_div 3456001000 1000 = 3456001"
  using getDurationInSec_drops_months_and_years
    [of "JStr ''2013-01-01T00:00:00''" "JStr ''2013-02-10T00:00:01''" example_lib]
  by (simp only: example_components example_instants example_duration Let_def) simp

section \<open>Ids as decimal strings, and the keys of the cache\<close>









lemma latest_distinct:
  "distinct (map rid items) \<Longrightarrow> x \<in> set items \<Longrightarrow> latest items (rid x) = x"
proof (induction items)
  case Nil
  then show ?case by simp
next
  case (Cons y ys)
  show ?case
  proof (cases "x = y")
    case xy: True
    from Cons.prems(1) have "rid y \<notin> rid ` set ys" by simp
    then have "\<forall>z \<in> set ys. rid z \<noteq> rid y" by (metis imageI)
    then have "filter (\<lambda>z. rid z = rid y) ys = []"
      by (simp add: filter_empty_conv)
    with xy show ?thesis by (simp add: latest_def)
  next
    case False
    with Cons.prems have x: "x \<in> set ys" and d: "distinct (map rid ys)" and "rid y \<noteq> rid x"
      by auto
    then have "latest (y # ys) (rid x) = latest ys (rid x)"
      by (simp add: latest_def)
    with Cons.IH [OF d x] show ?thesis by simp
  qed
qed



lemma cached_list_distinct:
  assumes "cached_list prefix items s" and "distinct (map rid items)" and "x \<in> set items"
  shows "globalCache s (prefix @ string_of_nat (rid x)) = Some (CItem x)"
  using assms by (simp add: cached_list_def cache_holds_def latest_distinct)

lemma prefixes_apart:
  "''job.'' @ k \<noteq> ''jobTemplate.'' @ k'" "''job.'' @ k \<noteq> ''worker.'' @ k'"
  "''jobTemplate.'' @ k \<noteq> ''worker.'' @ k'"
  by simp_all

section \<open>The event loop comes to rest\<close>

text \<open>What the pushes of \<open>getRuns\<close> leave alone.\<close>

lemma push_frame:
  assumes "push x s = Inr s'"
  shows "pending s' = pending s" "data s' = data s" "globalCache s' = globalCache s"
    "called s' = called s"
  using assms by (auto simp add: push_def split: option.splits if_splits obj.splits)

lemma push_each_frame:
  "pending (snd (push_each rs s)) = pending s \<and> data (snd (push_each rs s)) = data s
   \<and> globalCache (snd (push_each rs s)) = globalCache s
   \<and> called (snd (push_each rs s)) = called s"
proof (induction rs arbitrary: s)
  case Nil
  then show ?case by simp
next
  case (Cons x rs)
  show ?case
  proof (cases "push x s")
    case (Inl e)
    then show ?thesis by simp
  next
    case (Inr s')
    with Cons [of s'] push_frame [OF Inr] show ?thesis by simp
  qed
qed



lemma push_each_pending: "pending (snd (push_each rs s)) = pending s"
  by (simp add: push_each_frame)





section \<open>The chain of initialize\<close>


lemma init_reqs_simps [simp]:
  "init_reqs [] = {#}"
  "init_reqs (P @ Q) = init_reqs P + init_reqs Q"
  "init_reqs (req # P)
     = (if is_init (on_success req) then {#(query_of req, on_success req)#} else {#})
       + init_reqs P"
  by (simp_all add: init_reqs_def)





















section \<open>The run list\<close>

lemma owed_all_simps [simp]:
  "owed_all srv [] = {#}"
  "owed_all srv (P @ Q) = owed_all srv P + owed_all srv Q"
  "owed_all srv (req # P) = owed srv (query_of req) (on_success req) + owed_all srv P"
  by (simp_all add: owed_all_def)



lemma push_each_array:
  assumes "runs (data s) = Some r" and "r < length (heap s)" and "heap s ! r = Array xs"
  shows "push_each rs s = (None, s\<lparr>heap := (heap s)[r := Array (xs @ rs)]\<rparr>)"
  using assms
proof (induction rs arbitrary: s xs)
  case Nil
  then have "(heap s)[r := Array xs] = heap s"
    by (metis list_update_id)
  then show ?case by simp
next
  case (Cons x rs)
  let ?s' = "s\<lparr>heap := (heap s)[r := Array (xs @ [x])]\<rparr>"
  have p: "push x s = Inr ?s'"
    using Cons.prems by (simp add: push_def)
  have "push_each rs ?s' = (None, ?s'\<lparr>heap := (heap ?s')[r := Array ((xs @ [x]) @ rs)]\<rparr>)"
    using Cons.prems by (intro Cons.IH) simp_all
  with p show ?case by simp
qed








text \<open>An answer with runs that arrives after the project was switched finds \<open>data.runs\<close>
  \<open>null\<close>: its callback throws.\<close>

lemma late_answer_throws:
  "fst (deliver example_server 0 (setProjectId (JStr ''2'') (snd (getRuns example_state))))
   = Some TypeError"
  by code_simp


















section \<open>The list getRuns returns\<close>

lemma first_answer_fills:
  assumes "runs (data s) = None"
  shows "contents (snd (deliver srv (length (pending s)) (snd (getRuns s)))) (fst (getRuns s))
       = Some (Array (srv (Run_all ''scheduled'' (projectId (data s)))))"
proof -
  define p where "p = projectId (data s)"
  define r where "r = length (heap s)"
  define n where "n = length (pending s)"
  define g where "g = snd (getRuns s)"
  define req where "req = pending g ! n"
  define u where "u = g\<lparr>pending := take n (pending g) @ drop (Suc n) (pending g),
      heap := (heap g)[target req := fill (query_of req) (srv (query_of req))]\<rparr>"
  have g: "pending g = pending s @ runs_requests p r"
    "heap g = heap s @ [Array [], Array [], Array [], Array [], Array []]"
    "runs (data g) = Some r" and f: "fst (getRuns s) = r"
    by (simp_all add: g_def p_def r_def getRuns_new [OF assms])
  have q: "req = \<lparr>query_of = Run_all ''scheduled'' p, target = Suc r, on_success = PushRuns,
                  on_error = None\<rparr>"
    by (simp add: req_def g n_def runs_requests_def)
  have "n < length (pending g)"
    by (simp add: g n_def runs_requests_def)
  then have "deliver srv n g = run_callback (on_success req) (srv (query_of req)) u"
    by (simp add: deliver_def Let_def req_def u_def)
  then have d: "deliver srv n g = push_each (srv (Run_all ''scheduled'' p)) u"
    by (simp add: q)
  have "runs (data u) = Some r" "r < length (heap u)" "heap u ! r = Array []"
    by (simp_all add: u_def g q r_def nth_append)
  from push_each_array [OF this, of "srv (Run_all ''scheduled'' p)"]
  have "contents (snd (push_each (srv (Run_all ''scheduled'' p)) u)) r
      = Some (Array (srv (Run_all ''scheduled'' p)))"
    using \<open>r < length (heap u)\<close> by (simp add: contents_def)
  then have "contents (snd (deliver srv n g)) r = Some (Array (srv (Run_all ''scheduled'' p)))"
    by (simp add: d)
  then show ?thesis
    unfolding f by (simp add: g_def n_def p_def)
qed

text \<open>
  C2, as stated, fails: \<open>getRuns\<close> has no way to wait. With one project selected and a
  server that has runs, the list the caller receives is empty and the four queries are
  still in flight; the runs are in the list only after the answers have been delivered.
\<close>

theorem getRuns_exposes_early_counterexample:
  "contents (snd (getRuns example_state)) (fst (getRuns example_state)) = Some (Array [])
   \<and> map query_of (pending (snd (getRuns example_state)))
       = [Run_all ''scheduled'' (JStr ''1''), Run_all ''in_queue'' (JStr ''1''),
          Run_all ''started'' (JStr ''1''), Job_all (JStr ''1'')]
   \<and> contents (deliveries example_server [0, 0, 0, 0, 0] (snd (getRuns example_state)))
        (fst (getRuns example_state)) = Some (Array [example_run, example_completed])
   \<and> pending (deliveries example_server [0, 0, 0, 0, 0] (snd (getRuns example_state))) = []"
  by code_simp

text \<open>
  C2, amended. Called with \<open>data.runs\<close> \<open>null\<close>, \<open>getRuns\<close> issues its four queries and
  returns the run list at once: the list is a new, still empty array, and the four
  requests are in flight when the caller receives it. The list is filled as the answers
  arrive: after the answer to the scheduled query it holds the scheduled runs.
\<close>

theorem getRuns_returns_at_once:
  assumes "runs (data s) = None"
  shows "fst (getRuns s) = length (heap s)
       \<and> contents (snd (getRuns s)) (fst (getRuns s)) = Some (Array [])
       \<and> pending (snd (getRuns s))
           = pending s @ runs_requests (projectId (data s)) (fst (getRuns s))
       \<and> contents (snd (deliver srv (length (pending s)) (snd (getRuns s)))) (fst (getRuns s))
           = Some (Array (srv (Run_all ''scheduled'' (projectId (data s)))))"
  using assms first_answer_fills [OF assms, of srv]
  by (simp add: getRuns_new contents_def nth_append)

theorem getRuns_returns_at_once_witness:
  "runs (data example_state) = None
   \<and> fst (getRuns example_state) = 1
   \<and> contents (snd (getRuns example_state)) 1 = Some (Array [])
   \<and> pending (snd (getRuns example_state)) = runs_requests (JStr ''1'') 1
   \<and> contents (snd (deliver example_server 0 (snd (getRuns example_state)))) 1
       = Some (Array [example_run])"
proof -
  have h: "runs (data example_state) = None"
    by (simp add: example_state_def initial_data_def)
  have l: "length (heap example_state) = 1" "projectId (data example_state) = JStr ''1''"
    "pending example_state = []"
    by (simp_all add: example_state_def initial_data_def)
  from getRuns_returns_at_once [OF h, of example_server] show ?thesis using h l by auto
qed

section \<open>Failing requests\<close>

lemma remote_nec:
  "no_error_callbacks s \<Longrightarrow> no_error_callbacks (snd (remote q k None s))"
  by (simp add: no_error_callbacks_def remote_def Let_def)

lemma nec_pending: "pending s' = pending s \<Longrightarrow> no_error_callbacks s' = no_error_callbacks s"
  by (simp add: no_error_callbacks_def)

lemma nec_sub:
  "no_error_callbacks s \<Longrightarrow> set (pending s') \<subseteq> set (pending s) \<Longrightarrow> no_error_callbacks s'"
  by (auto simp add: no_error_callbacks_def)

lemma fold_remote_nec:
  "no_error_callbacks s \<Longrightarrow>
   no_error_callbacks
     (fold (\<lambda>job t. snd (remote (Run_query (rid job) 1 ''completed'') PushCompleted None t)) js s)"
  by (induction js arbitrary: s) (simp_all add: remote_nec)

lemma run_callback_nec:
  assumes "no_error_callbacks s"
  shows "no_error_callbacks (snd (run_callback k xs s))"
proof (cases k)
  case (InitJobs cb)
  then show ?thesis
    using assms by (simp add: Let_def no_error_callbacks_def remote_def)
next
  case (InitJobTemplates cb)
  then show ?thesis
    using assms by (simp add: Let_def no_error_callbacks_def remote_def)
next
  case (InitWorkers cb)
  then show ?thesis
    using assms by (simp add: Let_def no_error_callbacks_def)
next
  case (Success cb)
  then show ?thesis
    using assms by (cases cb) (simp_all add: no_error_callbacks_def)
next
  case PushRuns
  then show ?thesis
    using assms by (simp add: nec_pending [OF push_each_pending])
next
  case RunsJobs
  then show ?thesis
    using fold_remote_nec [OF assms, of xs] by simp
next
  case PushCompleted
  then show ?thesis
    using assms by (simp add: nec_pending [OF push_each_pending])
qed

lemma removed_nec:
  "no_error_callbacks s \<Longrightarrow>
   no_error_callbacks (s\<lparr>pending := take i (pending s) @ drop (Suc i) (pending s), heap := h\<rparr>)"
  "no_error_callbacks s \<Longrightarrow>
   no_error_callbacks (s\<lparr>pending := take i (pending s) @ drop (Suc i) (pending s)\<rparr>)"
  by (auto simp add: no_error_callbacks_def dest: in_set_takeD in_set_dropD)

lemma deliver_nec: "no_error_callbacks s \<Longrightarrow> no_error_callbacks (snd (deliver srv i s))"
  by (simp add: deliver_def Let_def run_callback_nec removed_nec)

lemma fail_request_dropped:
  assumes "no_error_callbacks s"
  shows "fail_request i s
       = (None, s\<lparr>pending := take i (pending s) @ drop (Suc i) (pending s)\<rparr>)"
proof (cases "i < length (pending s)")
  case True
  then have "pending s ! i \<in> set (pending s)" by simp
  with assms have "on_error (pending s ! i) = None"
    by (simp add: no_error_callbacks_def)
  with True show ?thesis by (simp add: fail_request_def Let_def)
next
  case False
  then show ?thesis by (simp add: fail_request_def)
qed

lemma operations_nec:
  assumes "no_error_callbacks s"
  shows "no_error_callbacks (setProjectId p s)"
    and "no_error_callbacks (initialize p cb s)"
    and "no_error_callbacks (snd (getProject s))"
    and "no_error_callbacks (snd (getAllJobs success s))"
    and "no_error_callbacks (snd (getAllJobTemplates s))"
    and "no_error_callbacks (snd (getRuns s))"
  using assms
  by (auto simp add: no_error_callbacks_def setProjectId_def initialize_def reset_all_def
      getProject_def getAllJobs_def getAllJobTemplates_def getRuns_def remote_def Let_def
      split: option.splits)

lemma reachable_nec: "reachable srv s \<Longrightarrow> no_error_callbacks s"
proof (induction rule: reachable.induct)
  case start
  show ?case by (simp add: no_error_callbacks_def initial_state_def)
next
  case (failure s i)
  then show ?case by (simp add: fail_request_dropped removed_nec)
qed (simp_all add: operations_nec deliver_nec)

lemma operations_issue_once:
  "distinct (issued s (setProjectId p s))"
  "distinct (issued s (initialize p cb s))"
  "distinct (issued s (snd (getProject s)))"
  "distinct (issued s (snd (getAllJobs success s)))"
  "distinct (issued s (snd (getAllJobTemplates s)))"
  "distinct (issued s (snd (getRuns s)))"
  by (simp_all add: issued_def setProjectId_def initialize_def reset_all_def
      getProject_def getAllJobs_def getAllJobTemplates_def getRuns_def remote_def Let_def
      split: option.splits)

text \<open>
  C8. No operation of \<open>globalState\<close> or \<open>dtformat\<close> has an error branch, a retry or a failure
  path. In every state the service can reach, no request in flight has an error callback,
  so a request that fails is dropped and nothing else happens: no callback runs, no
  field, cache entry or object changes, nothing is issued again and nothing is thrown.
  Each call of an operation issues each of its queries at most once. The functions of
  \<open>dtformat\<close> issue no query and return a value for all arguments that are not \<open>null\<close>.
\<close>

theorem no_error_handling:
  assumes "reachable srv s"
  shows "no_error_callbacks s
       \<and> fail_request i s
           = (None, s\<lparr>pending := take i (pending s) @ drop (Suc i) (pending s)\<rparr>)
       \<and> distinct (issued s (setProjectId p s))
       \<and> distinct (issued s (initialize p cb s))
       \<and> distinct (issued s (snd (getProject s)))
       \<and> distinct (issued s (snd (getAllJobs success s)))
       \<and> distinct (issued s (snd (getAllJobTemplates s)))
       \<and> distinct (issued s (snd (getRuns s)))
       \<and> (startDts \<noteq> JNull \<and> endDts \<noteq> JNull \<longrightarrow>
            formatDuration lib startDts endDts \<noteq> None
            \<and> getDurationInSec lib startDts endDts \<noteq> None)
       \<and> (dateTimeString \<noteq> JNull \<longrightarrow> formatDateTime lib dateTimeString \<noteq> None)"
  using reachable_nec [OF assms] fail_request_dropped [OF reachable_nec [OF assms]]
  by (simp add: operations_issue_once formatDuration_def getDurationInSec_def
      formatDateTime_def Let_def)

theorem no_error_handling_witness:
  "reachable example_server (snd (getRuns initial_state))
   \<and> no_error_callbacks (snd (getRuns initial_state))
   \<and> fst (fail_request 0 (snd (getRuns initial_state))) = None
   \<and> issued (snd (getRuns initial_state)) (snd (fail_request 0 (snd (getRuns initial_state)))) = []
   \<and> issued initial_state (snd (getRuns initial_state))
       = [Run_all ''scheduled'' JNull, Run_all ''in_queue'' JNull, Run_all ''started'' JNull,
          Job_all JNull]
   \<and> getDurationInSec example_lib (JStr ''2013-01-01T00:00:00'') (JStr ''2013-02-10T00:00:01'')
       \<noteq> None
   \<and> formatDateTime example_lib (JStr ''2013-01-01T00:00:00'') \<noteq> None"
proof -
  have r: "reachable example_server (snd (getRuns initial_state))"
    by (intro reachable.intros)
  have g: "snd (getRuns initial_state)
      = initial_state\<lparr>heap := [Array [], Array [], Array [], Array [], Array []],
          pending := runs_requests JNull 0,
          data := (data initial_state)\<lparr>runs := Some 0\<rparr>\<rparr>"
    by (simp add: getRuns_new initial_state_def initial_data_def)
  have e: "pending initial_state = []"
    by (simp add: initial_state_def)
  from no_error_handling [OF r, of 0 JNull 0 None "JStr ''2013-01-01T00:00:00''"
      "JStr ''2013-02-10T00:00:01''" example_lib "JStr ''2013-01-01T00:00:00''"]
  have a: "no_error_callbacks (snd (getRuns initial_state))"
    and b: "fail_request 0 (snd (getRuns initial_state))
          = (None, (snd (getRuns initial_state))
               \<lparr>pending := take 0 (pending (snd (getRuns initial_state)))
                           @ drop (Suc 0) (pending (snd (getRuns initial_state)))\<rparr>)"
    and c: "getDurationInSec example_lib (JStr ''2013-01-01T00:00:00'')
              (JStr ''2013-02-10T00:00:01'') \<noteq> None"
      "formatDateTime example_lib (JStr ''2013-01-01T00:00:00'') \<noteq> None"
    by simp_all
  have "pending (snd (getRuns initial_state)) = runs_requests JNull 0"
    by (simp add: g)
  then show ?thesis
    using r a c by (simp add: b issued_def runs_requests_def e)
qed

end
